theory Spec2Isabelle
  imports Main
begin

section \<open>Mode registry and tool-permission resolution (src/shared/modes.ts)\<close>

text \<open>
  The development follows the first document of \<^verbatim>\<open>src/shared/modes.ts\<close>: the helper
  functions on group entries, the built-in catalog \<^verbatim>\<open>modes\<close>, the lookups
  \<^verbatim>\<open>getModeBySlug\<close>, \<^verbatim>\<open>getModeConfig\<close>, \<^verbatim>\<open>getAllModes\<close> and the resolver
  \<^verbatim>\<open>isToolAllowedForMode\<close>. Exceptions are values of a sum type, the one array the
  code mutates lives in an explicit store, and what the file imports from modules that
  are not part of the sources (the tool tables, the experiment identifiers) and from the
  JavaScript runtime (\<^verbatim>\<open>RegExp\<close>) is a parameter of the functions that read it.
\<close>

subsection \<open>Data model\<close>

text \<open>
  \<^verbatim>\<open>ToolGroup\<close> is a string at run time; a \<^verbatim>\<open>GroupEntry\<close> is either that string or
  the pair of it with a \<^verbatim>\<open>GroupOptions\<close> object, whose two fields are both optional.
\<close>

type_synonym ToolGroup = string

record GroupOptions =
  fileRegex :: "string option"
  description :: "string option"

datatype GroupEntry = Simple ToolGroup | Scoped ToolGroup GroupOptions

text \<open>
  The prompt prose of a mode is free text. Four built-in modes take it from a content
  object: the role definition is the literal \<^verbatim>\<open>identity.description\<close> of the object,
  the custom instructions are \<^verbatim>\<open>formatCustomInstructions(object)\<close>, a Markdown rendering
  that no function of the registry or the resolver inspects; it is kept as a term naming
  the call.
\<close>

datatype content = architectModeContent | codeModeContent | reviewerModeContent | askModeContent

datatype prose = Str string | formatCustomInstructions content

record ModeConfig =
  slug :: string
  name :: string
  roleDefinition :: string
  groups :: "GroupEntry list"
  customInstructions :: "prose option"

datatype error =
    FileRestrictionError string string "string option" string
  | TypeError
  | Error string

text \<open>
  Values that \<^verbatim>\<open>./tools\<close>, \<^verbatim>\<open>./experiments\<close> and the runtime supply.
  \<^verbatim>\<open>TOOL_GROUPS[g]\<close> is \<^verbatim>\<open>undefined\<close> for a key the table lacks, so the table is a
  partial map to the \<^verbatim>\<open>tools\<close> array of the entry. \<^verbatim>\<open>EXPERIMENT_IDS\<close> stands for
  \<^verbatim>\<open>Object.values(EXPERIMENT_IDS)\<close>. \<^verbatim>\<open>RegExp p\<close> is \<^verbatim>\<open>new RegExp(p)\<close>:
  \<open>None\<close> when the constructor throws a SyntaxError, otherwise the \<^verbatim>\<open>test\<close> method
  of the compiled expression.
\<close>

record env =
  TOOL_GROUPS :: "ToolGroup \<rightharpoonup> string list"
  ALWAYS_AVAILABLE_TOOLS :: "string list"
  EXPERIMENT_IDS :: "string list"
  RegExp :: "string \<Rightarrow> (string \<Rightarrow> bool) option"

text \<open>
  Tool parameters are the string-valued fields of a parsed tool call; of a
  \<^verbatim>\<open>Record<string, boolean>\<close> only presence and truth of an entry are read. The
  requirement argument is declared as such a record, and the code also tests it against
  the boolean \<^verbatim>\<open>false\<close>, so both shapes are values of the argument.
\<close>

type_synonym ToolParams = "string \<rightharpoonup> string"

datatype ToolRequirements = Flag bool | Table "string \<rightharpoonup> bool"

text \<open>JavaScript truthiness of an optional string: \<^verbatim>\<open>undefined\<close> and \<^verbatim>\<open>""\<close> are falsy.\<close>

fun truthy :: "string option \<Rightarrow> bool" where
  "truthy None = False"
| "truthy (Some s) = (s \<noteq> [])"

subsection \<open>Helpers on group entries\<close>

fun getGroupName :: "GroupEntry \<Rightarrow> ToolGroup" where
  "getGroupName (Simple g) = g"
| "getGroupName (Scoped g opts) = g"

fun getGroupOptions :: "GroupEntry \<Rightarrow> GroupOptions option" where
  "getGroupOptions (Simple g) = None"
| "getGroupOptions (Scoped g opts) = Some opts"

text \<open>
  \<^verbatim>\<open>doesFileMatchRegex\<close>: the \<^verbatim>\<open>try\<close> block builds the expression and tests the path;
  the \<^verbatim>\<open>catch\<close> block logs and returns \<^verbatim>\<open>false\<close>.
\<close>

definition doesFileMatchRegex :: "env \<Rightarrow> string \<Rightarrow> string \<Rightarrow> bool" where
  "doesFileMatchRegex e filePath pattern =
     (case RegExp e pattern of
        Some regex_test \<Rightarrow> regex_test filePath
      | None \<Rightarrow> False)"

subsection \<open>The built-in catalog\<close>

fun identity_description :: "content \<Rightarrow> string" where
  "identity_description architectModeContent =
     ''Focuses on high-level system design, documentation structure, and project organization based on user requests. Defines implementation plans or refactoring strategies, leverages the reviewer tool for mandatory design feedback on non-trivial designs, and hands off to the Code agent.''"
| "identity_description codeModeContent =
     ''Responsible for end-to-end code implementation, modification, and documentation. Gathers context using repomix, learns from project hints, performs changes iteratively, runs tests, debugs issues, routinely uses the reviewer tool for feedback, and cleans up temporary files.''"
| "identity_description reviewerModeContent =
     ''Analyzes code changes or implementation approaches provided by the Code agent. Provides constructive feedback, checks for adherence to best practices and known project hints, and identifies potential issues. Does NOT implement changes directly.''"
| "identity_description askModeContent =
     ''Answers user questions about the project, code, or concepts using available context (codebase via read-only tools, project hints). Does NOT perform actions like coding, planning, or reviewing.''"

definition debug_roleDefinition :: string where
  "debug_roleDefinition =
     ''You are Roo, an expert software debugger specializing in systematic problem diagnosis and resolution.''"

definition debug_customInstructions :: string where
  "debug_customInstructions =
     ''Reflect on 5-7 different possible sources of the problem, distill those down to 1-2 most likely sources, and then add logs to validate your assumptions. Explicitly ask the user to confirm the diagnosis before fixing the problem.''"

definition orchestrator_roleDefinition :: string where
  "orchestrator_roleDefinition =
     ''You are Roo, a strategic workflow orchestrator who coordinates complex tasks by delegating them to appropriate specialized modes. You have a comprehensive understanding of each mode's capabilities and limitations, allowing you to effectively break down complex problems into discrete tasks that can be solved by different specialists.''"

definition orchestrator_customInstructions :: string where
  "orchestrator_customInstructions =
     ''Your role is to coordinate complex workflows by delegating tasks to specialized modes. As an orchestrator, you should:'' @
     [CHR 0x0A, CHR 0x0A] @
     ''1. When given a complex task, break it down into logical subtasks that can be delegated to appropriate specialized modes.'' @
     [CHR 0x0A, CHR 0x0A] @
     ''2. For each subtask, use the `new_task` tool to delegate. Choose the most appropriate mode for the subtask's specific goal and provide comprehensive instructions in the `message` parameter. These instructions must include:'' @
     [CHR 0x0A] @
     ''    *   All necessary context from the parent task or previous subtasks required to complete the work.'' @
     [CHR 0x0A] @
     ''    *   A clearly defined scope, specifying exactly what the subtask should accomplish.'' @
     [CHR 0x0A] @
     ''    *   An explicit statement that the subtask should *only* perform the work outlined in these instructions and not deviate.'' @
     [CHR 0x0A] @
     ''    *   An instruction for the subtask to signal completion by using the `attempt_completion` tool, providing a concise yet thorough summary of the outcome in the `result` parameter, keeping in mind that this summary will be the source of truth used to keep track of what was completed on this project.'' @
     [CHR 0x0A] @
     ''    *   A statement that these specific instructions supersede any conflicting general instructions the subtask's mode might have.'' @
     [CHR 0x0A, CHR 0x0A] @
     ''3. Track and manage the progress of all subtasks. When a subtask is completed, analyze its results and determine the next steps.'' @
     [CHR 0x0A, CHR 0x0A] @
     ''4. Help the user understand how the different subtasks fit together in the overall workflow. Provide clear reasoning about why you're delegating specific tasks to specific modes.'' @
     [CHR 0x0A, CHR 0x0A] @
     ''5. When all subtasks are completed, synthesize the results and provide a comprehensive overview of what was accomplished.'' @
     [CHR 0x0A, CHR 0x0A] @
     ''6. Ask clarifying questions when necessary to better understand how to break down complex tasks effectively.'' @
     [CHR 0x0A, CHR 0x0A] @
     ''7. Suggest improvements to the workflow based on the results of completed subtasks.'' @
     [CHR 0x0A, CHR 0x0A] @
     ''Use subtasks to maintain clarity. If a request significantly shifts focus or requires a different expertise (mode), consider creating a subtask rather than overloading the current one.''"

text \<open>
  The six entries of \<^verbatim>\<open>modes\<close>, in the order of the source. The character
  \<open>CHR 0x5C\<close> is the backslash of the two file patterns. Each display name
  starts with a pictograph outside ASCII; a string being a list of bytes, the pictograph
  is the bytes that the source file holds for it, followed by the space and the letters.
  The only reader of \<^verbatim>\<open>name\<close> is the constructor of \<^verbatim>\<open>FileRestrictionError\<close>,
  which copies it.
\<close>

definition modes :: "ModeConfig list" where
  "modes =
    [\<lparr>slug = ''code'',
      name = [CHR 0xC3, CHR 0xB0, CHR 0xC5, CHR 0xB8, CHR 0xE2, CHR 0x80, CHR 0x99, CHR 0xC2, CHR 0xBB] @ '' Code'',
      roleDefinition = identity_description codeModeContent,
      groups = [Simple ''read'', Simple ''edit'', Simple ''browser'', Simple ''command'',
                Simple ''mcp'', Simple ''review''],
      customInstructions = Some (formatCustomInstructions codeModeContent)\<rparr>,
     \<lparr>slug = ''architect'',
      name = [CHR 0xC3, CHR 0xB0, CHR 0xC5, CHR 0xB8, CHR 0xE2, CHR 0x80, CHR 0x94, CHR 0xC3, CHR 0xAF, CHR 0xC2, CHR 0xB8] @ '' Architect'',
      roleDefinition = identity_description architectModeContent,
      groups = [Simple ''read'',
                Scoped ''edit'' \<lparr>fileRegex = Some (CHR 0x5C # ''.md$''),
                                description = Some ''Markdown files only''\<rparr>,
                Simple ''browser'', Simple ''command'', Simple ''mcp'', Simple ''review''],
      customInstructions = Some (formatCustomInstructions architectModeContent)\<rparr>,
     \<lparr>slug = ''ask'',
      name = [CHR 0xC3, CHR 0xA2, CHR 0xE2, CHR 0x80, CHR 0x9C] @ '' Ask'',
      roleDefinition = identity_description askModeContent,
      groups = [Simple ''read'', Simple ''browser'', Simple ''mcp''],
      customInstructions = Some (formatCustomInstructions askModeContent)\<rparr>,
     \<lparr>slug = ''debug'',
      name = [CHR 0xC3, CHR 0xB0, CHR 0xC5, CHR 0xB8, CHR 0xC2, CHR 0xAA, CHR 0xC2, CHR 0xB2] @ '' Debug'',
      roleDefinition = debug_roleDefinition,
      groups = [Simple ''read'', Simple ''edit'', Simple ''browser'', Simple ''command'',
                Simple ''mcp''],
      customInstructions = Some (Str debug_customInstructions)\<rparr>,
     \<lparr>slug = ''reviewer'',
      name = [CHR 0xC3, CHR 0xB0, CHR 0xC5, CHR 0xB8, CHR 0xC2, CHR 0xA7] @ '' Reviewer'',
      roleDefinition = identity_description reviewerModeContent,
      groups = [Simple ''read'',
                Scoped ''edit'' \<lparr>fileRegex = Some (CHR 0x5C # ''.agent/review_response_.*'' @ CHR 0x5C # ''.md$''),
                                description = Some ''Review response files only''\<rparr>,
                Simple ''browser'', Simple ''command'', Simple ''mcp'', Simple ''review''],
      customInstructions = Some (formatCustomInstructions reviewerModeContent)\<rparr>,
     \<lparr>slug = ''orchestrator'',
      name = [CHR 0xC3, CHR 0xB0, CHR 0xC5, CHR 0xB8, CHR 0xC2, CHR 0xAA, CHR 0xC6, CHR 0x92] @ '' Orchestrator'',
      roleDefinition = orchestrator_roleDefinition,
      groups = [],
      customInstructions = Some (Str orchestrator_customInstructions)\<rparr>]"

subsection \<open>Lookups\<close>

text \<open>
  \<^verbatim>\<open>getModeBySlug\<close>: \<^verbatim>\<open>customModes?.find\<close> first, the built-ins second. The argument
  is optional, hence an option; a found mode is an object and so truthy.
\<close>

definition getModeBySlug :: "string \<Rightarrow> ModeConfig list option \<Rightarrow> ModeConfig option" where
  "getModeBySlug slug' customModes =
     (case (case customModes of
              None \<Rightarrow> None
            | Some cs \<Rightarrow> find (\<lambda>mode. slug mode = slug') cs) of
        Some customMode \<Rightarrow> Some customMode
      | None \<Rightarrow> find (\<lambda>mode. slug mode = slug') modes)"

definition getModeConfig :: "string \<Rightarrow> ModeConfig list option \<Rightarrow> error + ModeConfig" where
  "getModeConfig slug' customModes =
     (case getModeBySlug slug' customModes of
        None \<Rightarrow> Inl (Error (''No mode found for slug: '' @ slug'))
      | Some mode \<Rightarrow> Inr mode)"

definition isCustomMode :: "string \<Rightarrow> ModeConfig list option \<Rightarrow> bool" where
  "isCustomMode slug' customModes =
     (case customModes of
        None \<Rightarrow> False
      | Some cs \<Rightarrow> list_ex (\<lambda>mode. slug mode = slug') cs)"

subsection \<open>Merging custom modes: \<^verbatim>\<open>getAllModes\<close>\<close>

text \<open>
  \<^verbatim>\<open>getAllModes\<close> copies the module-level array \<^verbatim>\<open>modes\<close> with a spread and then
  assigns into and pushes onto the copy. Arrays are therefore held in a store, a list of
  arrays addressed by position; the module constant sits at \<open>modes_ref\<close>. A spread
  allocates the next free address.
\<close>

type_synonym ref = nat
type_synonym store = "ModeConfig list list"

definition modes_ref :: ref where
  "modes_ref = 0"

definition module_store :: store where
  "module_store = [modes]"

definition spread :: "ref \<Rightarrow> store \<Rightarrow> ref \<times> store" where
  "spread r st = (length st, st @ [st ! r])"

text \<open>\<^verbatim>\<open>Array.prototype.findIndex\<close>: the first index whose element passes, or \<open>-1\<close>.\<close>

fun findIndex :: "('a \<Rightarrow> bool) \<Rightarrow> 'a list \<Rightarrow> int" where
  "findIndex p [] = - 1"
| "findIndex p (x # xs) =
     (if p x then 0
      else (let i = findIndex p xs in if i = - 1 then - 1 else i + 1))"

text \<open>The body of the \<^verbatim>\<open>forEach\<close> callback, acting on the array at \<open>allModes\<close>.\<close>

definition override_or_add :: "ref \<Rightarrow> ModeConfig \<Rightarrow> store \<Rightarrow> store" where
  "override_or_add allModes customMode st =
     (let index = findIndex (\<lambda>mode. slug mode = slug customMode) (st ! allModes)
      in if index \<noteq> - 1
         then st[allModes := (st ! allModes)[nat index := customMode]]
         else st[allModes := (st ! allModes) @ [customMode]])"

definition getAllModes :: "ModeConfig list option \<Rightarrow> store \<Rightarrow> ref \<times> store" where
  "getAllModes customModes st =
     (case customModes of
        None \<Rightarrow> spread modes_ref st
      | Some cs \<Rightarrow>
          if length cs = 0 then spread modes_ref st
          else (let (allModes, st1) = spread modes_ref st
                in (allModes, fold (override_or_add allModes) cs st1)))"

text \<open>The array that a call of \<^verbatim>\<open>getAllModes\<close> returns, read from the store it leaves.\<close>

abbreviation allModes_of :: "ModeConfig list option \<Rightarrow> store \<Rightarrow> ModeConfig list" where
  "allModes_of customModes st \<equiv>
     snd (getAllModes customModes st) ! fst (getAllModes customModes st)"

text \<open>
  The reference merge, written from the description of the operation: start from the
  built-in sequence; a custom mode whose slug matches an existing entry replaces that
  entry at its index, any other custom mode is appended.
\<close>

fun merge_one :: "ModeConfig list \<Rightarrow> ModeConfig \<Rightarrow> ModeConfig list" where
  "merge_one [] c = [c]"
| "merge_one (m # ms) c = (if slug m = slug c then c # ms else m # merge_one ms c)"

definition merge_modes :: "ModeConfig list \<Rightarrow> ModeConfig list \<Rightarrow> ModeConfig list" where
  "merge_modes builtins customs = foldl merge_one builtins customs"

subsection \<open>The permission resolver: \<^verbatim>\<open>isToolAllowedForMode\<close>\<close>

text \<open>
  The experiment gate: the block runs only when \<^verbatim>\<open>experiments\<close> is given and the tool is
  one of the experiment identifiers; it denies when \<^verbatim>\<open>experiments[tool]\<close> is falsy, that
  is missing or \<^verbatim>\<open>false\<close>.
\<close>

definition experiment_denies :: "env \<Rightarrow> string \<Rightarrow> (string \<rightharpoonup> bool) option \<Rightarrow> bool" where
  "experiment_denies e tool experiments =
     (case experiments of
        None \<Rightarrow> False
      | Some ex \<Rightarrow> tool \<in> set (EXPERIMENT_IDS e) \<and> ex tool \<noteq> Some True)"

text \<open>
  The requirement gate: an object denies a tool it holds with a falsy value; anything
  else than an object denies exactly when it is the boolean \<^verbatim>\<open>false\<close>.
\<close>

fun requirement_denies :: "string \<Rightarrow> ToolRequirements option \<Rightarrow> bool" where
  "requirement_denies tool None = False"
| "requirement_denies tool (Some (Table reqs)) = (tool \<in> dom reqs \<and> reqs tool \<noteq> Some True)"
| "requirement_denies tool (Some (Flag b)) = (\<not> b)"

text \<open>
  What the loop does with a group entry whose tools include the tool: without options the
  tool is allowed; with a file pattern on the group \<^verbatim>\<open>edit\<close>, a call that names a path
  and carries a diff, content or operations, and whose path fails the pattern, throws.
\<close>

definition param :: "ToolParams option \<Rightarrow> string \<Rightarrow> string option" where
  "param toolParams key = (case toolParams of None \<Rightarrow> None | Some ps \<Rightarrow> ps key)"

definition carries_edit :: "ToolParams option \<Rightarrow> bool" where
  "carries_edit toolParams =
     (truthy (param toolParams ''diff'') \<or> truthy (param toolParams ''content'') \<or>
      truthy (param toolParams ''operations''))"

definition entry_decision ::
  "env \<Rightarrow> ModeConfig \<Rightarrow> GroupEntry \<Rightarrow> ToolParams option \<Rightarrow> error + bool" where
  "entry_decision e mode grp toolParams =
     (case getGroupOptions grp of
        None \<Rightarrow> Inr True
      | Some options \<Rightarrow>
          (case fileRegex options of
             None \<Rightarrow> Inr True
           | Some pattern \<Rightarrow>
               if getGroupName grp = ''edit'' \<and> pattern \<noteq> [] then
                 (case param toolParams ''path'' of
                    None \<Rightarrow> Inr True
                  | Some filePath \<Rightarrow>
                      if filePath \<noteq> [] \<and> carries_edit toolParams \<and>
                         \<not> doesFileMatchRegex e filePath pattern
                      then Inl (FileRestrictionError (name mode) pattern
                                  (description options) filePath)
                      else Inr True)
               else Inr True))"

text \<open>
  The \<^verbatim>\<open>for\<close> loop over \<^verbatim>\<open>mode.groups\<close>. Reading \<^verbatim>\<open>.tools\<close> of a group the table
  lacks is a TypeError.
\<close>

fun check_groups ::
  "env \<Rightarrow> ModeConfig \<Rightarrow> string \<Rightarrow> ToolParams option \<Rightarrow> GroupEntry list \<Rightarrow> error + bool" where
  "check_groups e mode tool toolParams [] = Inr False"
| "check_groups e mode tool toolParams (grp # rest) =
     (case TOOL_GROUPS e (getGroupName grp) of
        None \<Rightarrow> Inl TypeError
      | Some tools \<Rightarrow>
          if tool \<notin> set tools then check_groups e mode tool toolParams rest
          else entry_decision e mode grp toolParams)"

definition isToolAllowedForMode ::
  "env \<Rightarrow> string \<Rightarrow> string \<Rightarrow> ModeConfig list \<Rightarrow> ToolRequirements option \<Rightarrow>
   ToolParams option \<Rightarrow> (string \<rightharpoonup> bool) option \<Rightarrow> error + bool" where
  "isToolAllowedForMode e tool modeSlug customModes toolRequirements toolParams experiments =
     (if tool \<in> set (ALWAYS_AVAILABLE_TOOLS e) then Inr True
      else if experiment_denies e tool experiments then Inr False
      else if requirement_denies tool toolRequirements then Inr False
      else (case getModeBySlug modeSlug (Some customModes) of
              None \<Rightarrow> Inr False
            | Some mode \<Rightarrow> check_groups e mode tool toolParams (groups mode)))"

subsection \<open>An instance of the imported values\<close>

text \<open>
  A fragment of the JavaScript regular expressions, enough for the two patterns of the
  catalog: literal characters, a backslash before a syntax character, the dot, a postfix
  star and the end anchor. \<open>tokens\<close> reads the pattern; a backslash that ends the
  pattern is the SyntaxError "\<^verbatim>\<open>\ at end of pattern\<close>". \<open>pieces\<close> attaches each star to
  the atom before it; a star with no atom before it is the SyntaxError
  "\<^verbatim>\<open>Nothing to repeat\<close>". Patterns with any other operator are outside the fragment:
  \<open>frag_RegExp\<close> answers \<open>None\<close> for them as well, and nothing below reads it there.
\<close>

datatype atom = Lit char | AnyChar

datatype token = TAtom atom | TStar | TEnd

datatype piece = One atom | Star atom | EndAnchor

definition syntax_chars :: "char list" where
  "syntax_chars = CHR 0x5C # ''^$.*+?()[]{}|/''"

definition fragment_operators :: "char list" where
  "fragment_operators = ''^+?()[]{}|''"

fun tokens :: "string \<Rightarrow> token list option" where
  "tokens [] = Some []"
| "tokens [c] =
     (if c = CHR 0x5C then None
      else if c = CHR ''.'' then Some [TAtom AnyChar]
      else if c = CHR ''*'' then Some [TStar]
      else if c = CHR ''$'' then Some [TEnd]
      else if c \<in> set fragment_operators then None
      else Some [TAtom (Lit c)])"
| "tokens (c # d # cs) =
     (if c = CHR 0x5C then
        (if d \<in> set syntax_chars then map_option ((#) (TAtom (Lit d))) (tokens cs) else None)
      else if c = CHR ''.'' then map_option ((#) (TAtom AnyChar)) (tokens (d # cs))
      else if c = CHR ''*'' then map_option ((#) TStar) (tokens (d # cs))
      else if c = CHR ''$'' then map_option ((#) TEnd) (tokens (d # cs))
      else if c \<in> set fragment_operators then None
      else map_option ((#) (TAtom (Lit c))) (tokens (d # cs)))"

fun pieces :: "token list \<Rightarrow> piece list option" where
  "pieces [] = Some []"
| "pieces (TStar # ts) = None"
| "pieces (TAtom a # TStar # ts) = map_option ((#) (Star a)) (pieces ts)"
| "pieces (TAtom a # ts) = map_option ((#) (One a)) (pieces ts)"
| "pieces (TEnd # ts) = map_option ((#) EndAnchor) (pieces ts)"

text \<open>The dot matches every character but a line terminator.\<close>

fun atom_matches :: "atom \<Rightarrow> char \<Rightarrow> bool" where
  "atom_matches (Lit c) x = (x = c)"
| "atom_matches AnyChar x = (x \<noteq> CHR 0x0A \<and> x \<noteq> CHR 0x0D)"

fun match_here :: "piece list \<Rightarrow> string \<Rightarrow> bool" where
  "match_here [] s = True"
| "match_here (EndAnchor # ps) s = (s = [] \<and> match_here ps s)"
| "match_here (One a # ps) [] = False"
| "match_here (One a # ps) (x # s) = (atom_matches a x \<and> match_here ps s)"
| "match_here (Star a # ps) [] = match_here ps []"
| "match_here (Star a # ps) (x # s) =
     (match_here ps (x # s) \<or> (atom_matches a x \<and> match_here (Star a # ps) s))"

text \<open>\<^verbatim>\<open>test\<close> without the global flag looks for a match at any position.\<close>

fun search :: "piece list \<Rightarrow> string \<Rightarrow> bool" where
  "search ps [] = match_here ps []"
| "search ps (x # s) = (match_here ps (x # s) \<or> search ps s)"

definition frag_RegExp :: "string \<Rightarrow> (string \<Rightarrow> bool) option" where
  "frag_RegExp pattern =
     (case tokens pattern of
        None \<Rightarrow> None
      | Some ts \<Rightarrow> (case pieces ts of None \<Rightarrow> None | Some ps \<Rightarrow> Some (search ps)))"

text \<open>
  Modelled from the spec: the tables \<^verbatim>\<open>TOOL_GROUPS\<close> and \<^verbatim>\<open>ALWAYS_AVAILABLE_TOOLS\<close> of
  \<^verbatim>\<open>./tools\<close> and the identifiers \<^verbatim>\<open>EXPERIMENT_IDS\<close> of \<^verbatim>\<open>./experiments\<close> are not
  among the sources. The instance has the group identifiers the spec lists and the
  catalog uses, the tools the spec names (\<^verbatim>\<open>read_file\<close>, \<^verbatim>\<open>write_to_file\<close>,
  \<^verbatim>\<open>execute_command\<close>, the always available question and completion tools) next to
  further tools of the same groups, and one experiment identifier that is also a tool of
  the group \<^verbatim>\<open>edit\<close>, as the resolver's experiment gate provides for. The general
  theorems hold for every value of \<open>env\<close>; the instance serves to run them.
\<close>

definition sample_env :: env where
  "sample_env =
     \<lparr>TOOL_GROUPS = map_of
        [(''read'', [''read_file'', ''search_files'', ''list_files'']),
         (''edit'', [''apply_diff'', ''write_to_file'', ''insert_content'']),
         (''browser'', [''browser_action'']),
         (''command'', [''execute_command'']),
         (''mcp'', [''use_mcp_tool'', ''access_mcp_resource'']),
         (''review'', [''reviewer''])],
      ALWAYS_AVAILABLE_TOOLS = [''ask_followup_question'', ''attempt_completion''],
      EXPERIMENT_IDS = [''insert_content''],
      RegExp = frag_RegExp\<rparr>"

section \<open>Properties\<close>

subsection \<open>Lookup by slug\<close>

text \<open>
  C8. \<^verbatim>\<open>getModeBySlug\<close> answers with the first custom mode of that slug when there is
  one, otherwise with the built-in mode of that slug, and with the absence value exactly
  when neither sequence has the slug; it never throws. \<^verbatim>\<open>getModeConfig\<close> returns the
  same mode when there is one and throws the error "No mode found for slug: ..."
  exactly when there is none; so for the slug \<^verbatim>\<open>nonexistent\<close> and no custom modes.
\<close>

theorem getModeBySlug_custom_then_builtin:
  "getModeBySlug s (Some cs) =
     (if s \<in> slug ` set cs then find (\<lambda>mode. slug mode = s) cs
      else find (\<lambda>mode. slug mode = s) modes)
   \<and> getModeBySlug s None = find (\<lambda>mode. slug mode = s) modes
   \<and> (getModeBySlug s (Some cs) = None) = (s \<notin> slug ` set cs \<and> s \<notin> slug ` set modes)
   \<and> (getModeBySlug s None = None) = (s \<notin> slug ` set modes)
   \<and> getModeConfig s customModes =
       (case getModeBySlug s customModes of
          None \<Rightarrow> Inl (Error (''No mode found for slug: '' @ s))
        | Some mode \<Rightarrow> Inr mode)
   \<and> getModeBySlug ''nonexistent'' (Some []) = None
   \<and> getModeConfig ''nonexistent'' (Some []) =
       Inl (Error ''No mode found for slug: nonexistent'')"
proof -
  have none_iff: "\<And>xs. (find (\<lambda>mode. slug mode = s) xs = None) = (s \<notin> slug ` set xs)"
    by (auto simp: find_None_iff)
  have custom: "getModeBySlug s (Some cs) =
     (if s \<in> slug ` set cs then find (\<lambda>mode. slug mode = s) cs
      else find (\<lambda>mode. slug mode = s) modes)"
    using none_iff [of cs]
    by (cases "find (\<lambda>mode. slug mode = s) cs") (simp_all add: getModeBySlug_def)
  have builtin: "getModeBySlug s None = find (\<lambda>mode. slug mode = s) modes"
    by (simp add: getModeBySlug_def)
  have absent_custom:
    "(getModeBySlug s (Some cs) = None) = (s \<notin> slug ` set cs \<and> s \<notin> slug ` set modes)"
    unfolding custom using none_iff [of cs] none_iff [of modes] by simp
  have absent_builtin: "(getModeBySlug s None = None) = (s \<notin> slug ` set modes)"
    unfolding builtin by (rule none_iff)
  have strict: "getModeConfig s customModes =
       (case getModeBySlug s customModes of
          None \<Rightarrow> Inl (Error (''No mode found for slug: '' @ s))
        | Some mode \<Rightarrow> Inr mode)"
    by (simp add: getModeConfig_def)
  have lenient_ex: "getModeBySlug ''nonexistent'' (Some []) = None"
    by (simp add: getModeBySlug_def modes_def)
  have strict_ex: "getModeConfig ''nonexistent'' (Some []) =
       Inl (Error ''No mode found for slug: nonexistent'')"
    by (simp add: getModeConfig_def lenient_ex)
  from custom builtin absent_custom absent_builtin strict lenient_ex strict_ex
  show ?thesis by blast
qed

theorem getModeBySlug_custom_then_builtin_witness:
  "getModeBySlug ''ask''
     (Some [\<lparr>slug = ''ask'', name = ''Mine'', roleDefinition = ''r'', groups = [],
             customInstructions = None\<rparr>]) =
   Some \<lparr>slug = ''ask'', name = ''Mine'', roleDefinition = ''r'', groups = [],
         customInstructions = None\<rparr>
   \<and> map_option name (getModeBySlug ''ask'' None)
       = Some ([CHR 0xC3, CHR 0xA2, CHR 0xE2, CHR 0x80, CHR 0x9C] @ '' Ask'')
   \<and> getModeConfig ''missing'' None = Inl (Error ''No mode found for slug: missing'')"
proof -
  let ?mine = "\<lparr>slug = ''ask'', name = ''Mine'', roleDefinition = ''r'', groups = [],
                customInstructions = None\<rparr>"
  have a: "getModeBySlug ''ask'' (Some [?mine]) = Some ?mine"
    using getModeBySlug_custom_then_builtin [of "''ask''" "[?mine]"] by simp
  have b: "map_option name (getModeBySlug ''ask'' None)
       = Some ([CHR 0xC3, CHR 0xA2, CHR 0xE2, CHR 0x80, CHR 0x9C] @ '' Ask'')"
    using getModeBySlug_custom_then_builtin [of "''ask''"] by (simp add: modes_def)
  have c: "getModeConfig ''missing'' None = Inl (Error ''No mode found for slug: missing'')"
    using getModeBySlug_custom_then_builtin [of "''missing''" _ None] by (simp add: modes_def)
  from a b c show ?thesis by blast
qed

subsection \<open>The gates before the mode is looked up\<close>

text \<open>
  C4. A tool of the always available set is allowed whatever the other arguments are: a
  slug that resolves to no mode, any custom modes, any requirement value including the
  boolean \<^verbatim>\<open>false\<close>, any tool parameters and any experiments.
\<close>

theorem always_available_allowed:
  "tool \<in> set (ALWAYS_AVAILABLE_TOOLS e) \<Longrightarrow>
   isToolAllowedForMode e tool modeSlug customModes toolRequirements toolParams experiments
     = Inr True"
  by (simp add: isToolAllowedForMode_def)

theorem always_available_allowed_witness:
  "''attempt_completion'' \<in> set (ALWAYS_AVAILABLE_TOOLS sample_env)
   \<and> getModeBySlug ''nonexistent'' (Some []) = None
   \<and> isToolAllowedForMode sample_env ''attempt_completion'' ''nonexistent'' []
        (Some (Flag False)) None (Some Map.empty) = Inr True"
proof -
  have h: "''attempt_completion'' \<in> set (ALWAYS_AVAILABLE_TOOLS sample_env)"
    by (simp add: sample_env_def)
  have n: "getModeBySlug ''nonexistent'' (Some []) = None"
    by (simp add: getModeBySlug_def modes_def)
  from h n always_available_allowed [OF h] show ?thesis by blast
qed

text \<open>
  Three facts about the loop over the groups, used below: a call that passes the gates
  and resolves its mode is decided by the loop; entries whose tools lack the tool are
  skipped; the first entry whose tools include the tool decides.
\<close>

lemma group_stage:
  assumes "tool \<notin> set (ALWAYS_AVAILABLE_TOOLS e)"
    and "\<not> experiment_denies e tool experiments"
    and "\<not> requirement_denies tool toolRequirements"
    and "getModeBySlug modeSlug (Some customModes) = Some mode"
  shows "isToolAllowedForMode e tool modeSlug customModes toolRequirements toolParams experiments
           = check_groups e mode tool toolParams (groups mode)"
  using assms by (simp add: isToolAllowedForMode_def)

lemma check_groups_skip:
  assumes "\<forall>h\<in>set pre. \<exists>hs. TOOL_GROUPS e (getGroupName h) = Some hs \<and> tool \<notin> set hs"
  shows "check_groups e mode tool toolParams (pre @ rest) = check_groups e mode tool toolParams rest"
  using assms by (induction pre) auto

lemma check_groups_first:
  assumes "\<forall>h\<in>set pre. \<exists>hs. TOOL_GROUPS e (getGroupName h) = Some hs \<and> tool \<notin> set hs"
    and "TOOL_GROUPS e (getGroupName grp) = Some ts"
    and "tool \<in> set ts"
  shows "check_groups e mode tool toolParams (pre @ grp # post) = entry_decision e mode grp toolParams"
  using assms by (simp add: check_groups_skip)

lemma check_groups_none:
  assumes "\<forall>h\<in>set gs. \<exists>hs. TOOL_GROUPS e (getGroupName h) = Some hs \<and> tool \<notin> set hs"
  shows "check_groups e mode tool toolParams gs = Inr False"
  using check_groups_skip [OF assms, of mode toolParams "[]"] by simp

text \<open>The loop reads the tool table and the regular expressions only.\<close>

lemma check_groups_EXPERIMENT_IDS:
  "check_groups (e\<lparr>EXPERIMENT_IDS := ids\<rparr>) mode tool toolParams gs
     = check_groups e mode tool toolParams gs"
  by (induction gs)
     (simp_all add: entry_decision_def doesFileMatchRegex_def split: option.splits)

text \<open>
  C5. With the boolean \<^verbatim>\<open>false\<close> for \<^verbatim>\<open>toolRequirements\<close> every tool outside the
  always available set is denied, in every mode. With a mapping, a tool is denied at this
  stage when the mapping holds \<^verbatim>\<open>false\<close> for it; a tool with no entry or a true
  entry fares as it does without any requirements.
\<close>

theorem requirement_gate:
  assumes "tool \<notin> set (ALWAYS_AVAILABLE_TOOLS e)"
  shows "isToolAllowedForMode e tool modeSlug customModes (Some (Flag False)) toolParams experiments
           = Inr False
       \<and> (reqs tool = Some False \<longrightarrow>
            isToolAllowedForMode e tool modeSlug customModes (Some (Table reqs)) toolParams
              experiments = Inr False)
       \<and> (reqs tool \<noteq> Some False \<longrightarrow>
            isToolAllowedForMode e tool modeSlug customModes (Some (Table reqs)) toolParams
              experiments
            = isToolAllowedForMode e tool modeSlug customModes None toolParams experiments)"
  using assms by (cases "reqs tool") (auto simp add: isToolAllowedForMode_def)

theorem requirement_gate_witness:
  "''read_file'' \<notin> set (ALWAYS_AVAILABLE_TOOLS sample_env)
   \<and> isToolAllowedForMode sample_env ''read_file'' ''code'' [] (Some (Flag False)) None None
       = Inr False
   \<and> isToolAllowedForMode sample_env ''read_file'' ''code'' []
        (Some (Table [''read_file'' \<mapsto> False])) None None = Inr False
   \<and> isToolAllowedForMode sample_env ''read_file'' ''code'' []
        (Some (Table [''write_to_file'' \<mapsto> False])) None None = Inr True
   \<and> isToolAllowedForMode sample_env ''read_file'' ''code'' []
        (Some (Table [''read_file'' \<mapsto> True])) None None = Inr True"
proof -
  have h: "''read_file'' \<notin> set (ALWAYS_AVAILABLE_TOOLS sample_env)"
    by (simp add: sample_env_def)
  have free: "isToolAllowedForMode sample_env ''read_file'' ''code'' [] None None None = Inr True"
    by code_simp
  have a: "isToolAllowedForMode sample_env ''read_file'' ''code'' [] (Some (Flag False)) None None
       = Inr False"
    using requirement_gate [OF h] by blast
  have b: "isToolAllowedForMode sample_env ''read_file'' ''code'' []
        (Some (Table [''read_file'' \<mapsto> False])) None None = Inr False"
    using requirement_gate [OF h, where reqs = "[''read_file'' \<mapsto> False]"] by simp
  have c: "isToolAllowedForMode sample_env ''read_file'' ''code'' []
        (Some (Table [''write_to_file'' \<mapsto> False])) None None = Inr True"
    using requirement_gate [OF h, where reqs = "[''write_to_file'' \<mapsto> False]"
        and modeSlug = "''code''" and customModes = "[]" and toolParams = None
        and experiments = None]
      free by simp
  have d: "isToolAllowedForMode sample_env ''read_file'' ''code'' []
        (Some (Table [''read_file'' \<mapsto> True])) None None = Inr True"
    using requirement_gate [OF h, where reqs = "[''read_file'' \<mapsto> True]"
        and modeSlug = "''code''" and customModes = "[]" and toolParams = None
        and experiments = None]
      free by simp
  from h a b c d show ?thesis by blast
qed

text \<open>
  C3, as the code has it. The claim denies an experimental tool also when the
  \<^verbatim>\<open>experiments\<close> argument is absent; the code enters the experiment test only when the
  argument is given. In the instance, \<^verbatim>\<open>insert_content\<close> is an experiment identifier
  and a tool of the group \<^verbatim>\<open>edit\<close>, which the mode \<^verbatim>\<open>code\<close> grants: without
  experiments the call is allowed.
\<close>

theorem experimental_tool_allowed_without_experiments:
  "''insert_content'' \<in> set (EXPERIMENT_IDS sample_env)
   \<and> ''insert_content'' \<notin> set (ALWAYS_AVAILABLE_TOOLS sample_env)
   \<and> isToolAllowedForMode sample_env ''insert_content'' ''code'' [] None None None = Inr True"
  by code_simp

text \<open>
  C3, amended. For a tool that is an experiment identifier and not always available: when
  \<^verbatim>\<open>experiments\<close> is given and its entry for the tool is missing or \<^verbatim>\<open>false\<close>, the
  result is \<^verbatim>\<open>false\<close> whatever the mode grants; when \<^verbatim>\<open>experiments\<close> is absent, the
  gate is not applied and the result is the one the remaining rules give, the same as if
  there were no experiment identifiers at all.
\<close>

theorem experiment_gate_when_supplied:
  assumes "tool \<in> set (EXPERIMENT_IDS e)"
    and "tool \<notin> set (ALWAYS_AVAILABLE_TOOLS e)"
  shows "(ex tool \<noteq> Some True \<longrightarrow>
            isToolAllowedForMode e tool modeSlug customModes toolRequirements toolParams (Some ex)
              = Inr False)
       \<and> isToolAllowedForMode e tool modeSlug customModes toolRequirements toolParams None
           = isToolAllowedForMode (e\<lparr>EXPERIMENT_IDS := []\<rparr>) tool modeSlug customModes
               toolRequirements toolParams None"
  using assms
  by (simp add: isToolAllowedForMode_def experiment_denies_def check_groups_EXPERIMENT_IDS
           split: option.splits)

theorem experiment_gate_when_supplied_witness:
  "''insert_content'' \<in> set (EXPERIMENT_IDS sample_env)
   \<and> ''insert_content'' \<notin> set (ALWAYS_AVAILABLE_TOOLS sample_env)
   \<and> isToolAllowedForMode sample_env ''insert_content'' ''code'' [] None None (Some Map.empty)
       = Inr False
   \<and> isToolAllowedForMode sample_env ''insert_content'' ''code'' [] None None
        (Some [''insert_content'' \<mapsto> False]) = Inr False
   \<and> isToolAllowedForMode (sample_env\<lparr>EXPERIMENT_IDS := []\<rparr>) ''insert_content'' ''code'' []
        None None None = Inr True"
proof -
  have h1: "''insert_content'' \<in> set (EXPERIMENT_IDS sample_env)"
    by (simp add: sample_env_def)
  have h2: "''insert_content'' \<notin> set (ALWAYS_AVAILABLE_TOOLS sample_env)"
    by (simp add: sample_env_def)
  have absent: "isToolAllowedForMode sample_env ''insert_content'' ''code'' [] None None None
      = Inr True"
    by code_simp
  have a: "isToolAllowedForMode sample_env ''insert_content'' ''code'' [] None None
        (Some Map.empty) = Inr False"
    using experiment_gate_when_supplied [OF h1 h2, where ex = Map.empty] by simp
  have b: "isToolAllowedForMode sample_env ''insert_content'' ''code'' [] None None
        (Some [''insert_content'' \<mapsto> False]) = Inr False"
    using experiment_gate_when_supplied [OF h1 h2, where ex = "[''insert_content'' \<mapsto> False]"]
    by simp
  have c: "isToolAllowedForMode (sample_env\<lparr>EXPERIMENT_IDS := []\<rparr>) ''insert_content''
        ''code'' [] None None None = Inr True"
    using experiment_gate_when_supplied [OF h1 h2, where modeSlug = "''code''"
        and customModes = "[]" and toolRequirements = None and toolParams = None]
      absent by simp
  from h1 h2 a b c show ?thesis by blast
qed

subsection \<open>The loop over the group entries\<close>

text \<open>
  C2. For a call that reaches the loop (the tool is not always available, neither gate
  denies it, the slug resolves to a mode), let an entry of the mode's groups be the first,
  in their declared order, whose tools include the tool. Whatever entries follow it:
  if the entry has no options, the call is allowed; if it is the group \<^verbatim>\<open>edit\<close> with a
  file pattern and the call names a path, carries a diff, content or operations, and the
  path does not match the pattern (or the pattern is no regular expression), the call
  throws the file restriction error with the mode's name, the pattern, the description
  and the path, also when a later entry grants the tool without options; in every other
  case of an entry with options the call is allowed. When no entry's tools include the
  tool the result is \<^verbatim>\<open>false\<close>.
\<close>

theorem first_matching_group_decides:
  assumes "tool \<notin> set (ALWAYS_AVAILABLE_TOOLS e)"
    and "\<not> experiment_denies e tool experiments"
    and "\<not> requirement_denies tool toolRequirements"
    and "getModeBySlug modeSlug (Some customModes) = Some mode"
  shows "(groups mode = pre @ grp # post \<and>
          (\<forall>h\<in>set pre. \<exists>hs. TOOL_GROUPS e (getGroupName h) = Some hs \<and> tool \<notin> set hs) \<and>
          TOOL_GROUPS e (getGroupName grp) = Some ts \<and> tool \<in> set ts \<longrightarrow>
            (grp = Simple g \<longrightarrow>
               isToolAllowedForMode e tool modeSlug customModes toolRequirements toolParams
                 experiments = Inr True)
          \<and> (grp = Scoped ''edit'' opts \<and> fileRegex opts = Some pattern \<and> pattern \<noteq> [] \<and>
             toolParams = Some ps \<and> ps ''path'' = Some filePath \<and> filePath \<noteq> [] \<and>
             ((\<exists>d. ps ''diff'' = Some d \<and> d \<noteq> []) \<or> (\<exists>c. ps ''content'' = Some c \<and> c \<noteq> []) \<or>
              (\<exists>os. ps ''operations'' = Some os \<and> os \<noteq> [])) \<and>
             (RegExp e pattern = None \<or> (\<exists>t. RegExp e pattern = Some t \<and> \<not> t filePath)) \<longrightarrow>
               isToolAllowedForMode e tool modeSlug customModes toolRequirements toolParams
                 experiments
               = Inl (FileRestrictionError (name mode) pattern (description opts) filePath))
          \<and> (grp = Scoped g opts \<and>
             (g \<noteq> ''edit'' \<or> fileRegex opts = None \<or> fileRegex opts = Some [] \<or>
              toolParams = None \<or>
              (\<exists>qs. toolParams = Some qs \<and>
                 (qs ''path'' = None \<or> qs ''path'' = Some [] \<or>
                  ((qs ''diff'' = None \<or> qs ''diff'' = Some []) \<and>
                   (qs ''content'' = None \<or> qs ''content'' = Some []) \<and>
                   (qs ''operations'' = None \<or> qs ''operations'' = Some [])) \<or>
                  (\<exists>p f t. fileRegex opts = Some p \<and> qs ''path'' = Some f \<and>
                           RegExp e p = Some t \<and> t f)))) \<longrightarrow>
               isToolAllowedForMode e tool modeSlug customModes toolRequirements toolParams
                 experiments = Inr True))
       \<and> ((\<forall>h\<in>set (groups mode).
              \<exists>hs. TOOL_GROUPS e (getGroupName h) = Some hs \<and> tool \<notin> set hs) \<longrightarrow>
            isToolAllowedForMode e tool modeSlug customModes toolRequirements toolParams
              experiments = Inr False)"
proof -
  let ?result = "isToolAllowedForMode e tool modeSlug customModes toolRequirements toolParams
      experiments"
  have stage: "?result = check_groups e mode tool toolParams (groups mode)"
    using assms by (rule group_stage)
  have falsy: "(v = None \<or> v = Some []) = (\<not> truthy v)" for v
    by (cases v) auto
  have plain: "entry_decision e mode (Simple g) toolParams = Inr True"
    by (simp add: entry_decision_def)
  have throws: "entry_decision e mode (Scoped ''edit'' opts) (Some ps)
      = Inl (FileRestrictionError (name mode) pattern (description opts) filePath)"
    if "fileRegex opts = Some pattern" and "pattern \<noteq> []"
      and "ps ''path'' = Some filePath" and "filePath \<noteq> []"
      and "(\<exists>d. ps ''diff'' = Some d \<and> d \<noteq> []) \<or> (\<exists>c. ps ''content'' = Some c \<and> c \<noteq> []) \<or>
           (\<exists>os. ps ''operations'' = Some os \<and> os \<noteq> [])"
      and "RegExp e pattern = None \<or> (\<exists>t. RegExp e pattern = Some t \<and> \<not> t filePath)"
  proof -
    from that(5) have "carries_edit (Some ps)"
      by (auto simp add: carries_edit_def param_def)
    moreover from that(6) have "\<not> doesFileMatchRegex e filePath pattern"
      by (auto simp add: doesFileMatchRegex_def)
    ultimately show ?thesis
      using that(1-4) by (simp add: entry_decision_def param_def)
  qed
  have allows: "entry_decision e mode (Scoped g opts) toolParams = Inr True"
    if "g \<noteq> ''edit'' \<or> fileRegex opts = None \<or> fileRegex opts = Some [] \<or>
        toolParams = None \<or>
        (\<exists>qs. toolParams = Some qs \<and>
           (qs ''path'' = None \<or> qs ''path'' = Some [] \<or>
            ((qs ''diff'' = None \<or> qs ''diff'' = Some []) \<and>
             (qs ''content'' = None \<or> qs ''content'' = Some []) \<and>
             (qs ''operations'' = None \<or> qs ''operations'' = Some [])) \<or>
            (\<exists>p f t. fileRegex opts = Some p \<and> qs ''path'' = Some f \<and>
                     RegExp e p = Some t \<and> t f)))"
    using that unfolding falsy
    by (auto simp add: entry_decision_def param_def carries_edit_def doesFileMatchRegex_def
             split: option.splits)
  have first: "?result = entry_decision e mode grp toolParams"
    if "groups mode = pre @ grp # post"
      and "\<forall>h\<in>set pre. \<exists>hs. TOOL_GROUPS e (getGroupName h) = Some hs \<and> tool \<notin> set hs"
      and "TOOL_GROUPS e (getGroupName grp) = Some ts" and "tool \<in> set ts"
    unfolding stage that(1) using that(2-4) by (rule check_groups_first)
  have none: "?result = Inr False"
    if "\<forall>h\<in>set (groups mode). \<exists>hs. TOOL_GROUPS e (getGroupName h) = Some hs \<and> tool \<notin> set hs"
    unfolding stage using that by (rule check_groups_none)
  show ?thesis
  proof (intro conjI impI)
    assume h: "groups mode = pre @ grp # post \<and>
          (\<forall>h\<in>set pre. \<exists>hs. TOOL_GROUPS e (getGroupName h) = Some hs \<and> tool \<notin> set hs) \<and>
          TOOL_GROUPS e (getGroupName grp) = Some ts \<and> tool \<in> set ts"
    then have r: "?result = entry_decision e mode grp toolParams"
      by (intro first) simp_all
    {
      assume "grp = Simple g"
      with r plain show "?result = Inr True" by simp
    next
      assume "grp = Scoped ''edit'' opts \<and> fileRegex opts = Some pattern \<and> pattern \<noteq> [] \<and>
             toolParams = Some ps \<and> ps ''path'' = Some filePath \<and> filePath \<noteq> [] \<and>
             ((\<exists>d. ps ''diff'' = Some d \<and> d \<noteq> []) \<or> (\<exists>c. ps ''content'' = Some c \<and> c \<noteq> []) \<or>
              (\<exists>os. ps ''operations'' = Some os \<and> os \<noteq> [])) \<and>
             (RegExp e pattern = None \<or> (\<exists>t. RegExp e pattern = Some t \<and> \<not> t filePath))"
      then have genuine: "grp = Scoped ''edit'' opts" "toolParams = Some ps"
        and "entry_decision e mode (Scoped ''edit'' opts) (Some ps)
          = Inl (FileRestrictionError (name mode) pattern (description opts) filePath)"
        by (simp_all add: throws)
      with r
      show "?result = Inl (FileRestrictionError (name mode) pattern (description opts) filePath)"
        by simp
    next
      assume "grp = Scoped g opts \<and>
             (g \<noteq> ''edit'' \<or> fileRegex opts = None \<or> fileRegex opts = Some [] \<or>
              toolParams = None \<or>
              (\<exists>qs. toolParams = Some qs \<and>
                 (qs ''path'' = None \<or> qs ''path'' = Some [] \<or>
                  ((qs ''diff'' = None \<or> qs ''diff'' = Some []) \<and>
                   (qs ''content'' = None \<or> qs ''content'' = Some []) \<and>
                   (qs ''operations'' = None \<or> qs ''operations'' = Some [])) \<or>
                  (\<exists>p f t. fileRegex opts = Some p \<and> qs ''path'' = Some f \<and>
                           RegExp e p = Some t \<and> t f))))"
      then have "grp = Scoped g opts"
        and "entry_decision e mode (Scoped g opts) toolParams = Inr True"
        by (simp_all add: allows)
      with r show "?result = Inr True" by simp
    }
  next
    assume "\<forall>h\<in>set (groups mode).
              \<exists>hs. TOOL_GROUPS e (getGroupName h) = Some hs \<and> tool \<notin> set hs"
    then show "?result = Inr False" by (rule none)
  qed
qed

text \<open>
  A mode that lists the group \<^verbatim>\<open>edit\<close> twice, first scoped to Markdown files and then
  without options: the scoped entry throws for an edit of \<^verbatim>\<open>app.ts\<close>, although the
  second entry alone allows it, and allows an edit of \<^verbatim>\<open>notes.md\<close>; a tool of a group
  the mode does not list is denied.
\<close>

theorem first_matching_group_decides_witness:
  "isToolAllowedForMode sample_env ''write_to_file'' ''docs''
     [\<lparr>slug = ''docs'', name = ''Docs'', roleDefinition = ''r'',
       groups = [Simple ''read'',
                 Scoped ''edit'' \<lparr>fileRegex = Some (CHR 0x5C # ''.md$''), description = None\<rparr>,
                 Simple ''edit''],
       customInstructions = None\<rparr>]
     None (Some [''path'' \<mapsto> ''app.ts'', ''content'' \<mapsto> ''x'']) None
   = Inl (FileRestrictionError ''Docs'' (CHR 0x5C # ''.md$'') None ''app.ts'')
   \<and> isToolAllowedForMode sample_env ''write_to_file'' ''docs''
     [\<lparr>slug = ''docs'', name = ''Docs'', roleDefinition = ''r'',
       groups = [Simple ''read'',
                 Scoped ''edit'' \<lparr>fileRegex = Some (CHR 0x5C # ''.md$''), description = None\<rparr>,
                 Simple ''edit''],
       customInstructions = None\<rparr>]
     None (Some [''path'' \<mapsto> ''notes.md'', ''content'' \<mapsto> ''x'']) None = Inr True
   \<and> isToolAllowedForMode sample_env ''write_to_file'' ''plain''
     [\<lparr>slug = ''plain'', name = ''Plain'', roleDefinition = ''r'',
       groups = [Simple ''edit''], customInstructions = None\<rparr>]
     None (Some [''path'' \<mapsto> ''app.ts'', ''content'' \<mapsto> ''x'']) None = Inr True
   \<and> isToolAllowedForMode sample_env ''execute_command'' ''plain''
     [\<lparr>slug = ''plain'', name = ''Plain'', roleDefinition = ''r'',
       groups = [Simple ''edit''], customInstructions = None\<rparr>]
     None None None = Inr False"
proof -
  let ?opts = "\<lparr>fileRegex = Some (CHR 0x5C # ''.md$''), description = None\<rparr>"
  let ?docs = "\<lparr>slug = ''docs'', name = ''Docs'', roleDefinition = ''r'',
       groups = [Simple ''read'', Scoped ''edit'' ?opts, Simple ''edit''],
       customInstructions = None\<rparr>"
  let ?plain = "\<lparr>slug = ''plain'', name = ''Plain'', roleDefinition = ''r'',
       groups = [Simple ''edit''], customInstructions = None\<rparr>"
  let ?app = "[''path'' \<mapsto> ''app.ts'', ''content'' \<mapsto> ''x'']"
  let ?notes = "[''path'' \<mapsto> ''notes.md'', ''content'' \<mapsto> ''x'']"
  let ?edit = "[''apply_diff'', ''write_to_file'', ''insert_content'']"
  have w: "''write_to_file'' \<notin> set (ALWAYS_AVAILABLE_TOOLS sample_env)"
    and x: "''execute_command'' \<notin> set (ALWAYS_AVAILABLE_TOOLS sample_env)"
    by (simp_all add: sample_env_def)
  have we: "\<not> experiment_denies sample_env ''write_to_file'' None"
    and xe: "\<not> experiment_denies sample_env ''execute_command'' None"
    by (simp_all add: experiment_denies_def)
  have wr: "\<not> requirement_denies ''write_to_file'' None"
    and xr: "\<not> requirement_denies ''execute_command'' None"
    by simp_all
  have docs: "getModeBySlug ''docs'' (Some [?docs]) = Some ?docs"
    and plain: "getModeBySlug ''plain'' (Some [?plain]) = Some ?plain"
    by (simp_all add: getModeBySlug_def)
  obtain t where t: "RegExp sample_env (CHR 0x5C # ''.md$'') = Some t"
    and miss: "\<not> t ''app.ts''" and hit: "t ''notes.md''"
    by (simp add: sample_env_def frag_RegExp_def syntax_chars_def fragment_operators_def)
  have a: "isToolAllowedForMode sample_env ''write_to_file'' ''docs'' [?docs] None (Some ?app) None
      = Inl (FileRestrictionError ''Docs'' (CHR 0x5C # ''.md$'') None ''app.ts'')"
    using first_matching_group_decides [OF w we wr docs, where pre = "[Simple ''read'']"
        and grp = "Scoped ''edit'' ?opts" and post = "[Simple ''edit'']" and ts = ?edit
        and toolParams = "Some ?app" and opts = ?opts and pattern = "CHR 0x5C # ''.md$''"
        and ps = ?app and filePath = "''app.ts''"]
      t miss
    by (simp add: sample_env_def)
  have b: "isToolAllowedForMode sample_env ''write_to_file'' ''docs'' [?docs] None (Some ?notes)
      None = Inr True"
    using first_matching_group_decides [OF w we wr docs, where pre = "[Simple ''read'']"
        and grp = "Scoped ''edit'' ?opts" and post = "[Simple ''edit'']" and ts = ?edit
        and toolParams = "Some ?notes" and opts = ?opts and g = "''edit''"]
      t hit
    by (simp add: sample_env_def)
  have c: "isToolAllowedForMode sample_env ''write_to_file'' ''plain'' [?plain] None (Some ?app)
      None = Inr True"
    using first_matching_group_decides [OF w we wr plain, where pre = "[]"
        and grp = "Simple ''edit''" and post = "[]" and ts = ?edit
        and toolParams = "Some ?app" and g = "''edit''"]
    by (simp add: sample_env_def)
  have d: "isToolAllowedForMode sample_env ''execute_command'' ''plain'' [?plain] None None None
      = Inr False"
    using first_matching_group_decides [OF x xe xr plain, where toolParams = None]
    by (simp add: sample_env_def)
  show ?thesis by (intro conjI a b c d)
qed

subsection \<open>The file restriction of the group \<^verbatim>\<open>edit\<close>\<close>

text \<open>
  C1. In the built-in mode \<^verbatim>\<open>architect\<close>, with no custom modes, no requirements and no
  experiments, \<^verbatim>\<open>write_to_file\<close> with path \<^verbatim>\<open>notes.md\<close> and content \<^verbatim>\<open>x\<close> is
  allowed; with path \<^verbatim>\<open>app.ts\<close> and content \<^verbatim>\<open>x\<close> the call throws the file
  restriction error; with path \<^verbatim>\<open>app.ts\<close> alone it throws nothing and is allowed.
  The tables are those of any environment in which \<^verbatim>\<open>write_to_file\<close> is a tool of the
  group \<^verbatim>\<open>edit\<close>, not of the group \<^verbatim>\<open>read\<close>, and not always available, and whose
  regular expressions read the pattern of the mode as the fragment does.
\<close>

theorem architect_edits_markdown_only:
  assumes "''write_to_file'' \<notin> set (ALWAYS_AVAILABLE_TOOLS e)"
    and "TOOL_GROUPS e ''read'' = Some rs" and "''write_to_file'' \<notin> set rs"
    and "TOOL_GROUPS e ''edit'' = Some es" and "''write_to_file'' \<in> set es"
    and "RegExp e (CHR 0x5C # ''.md$'') = frag_RegExp (CHR 0x5C # ''.md$'')"
  shows "isToolAllowedForMode e ''write_to_file'' ''architect'' [] None
           (Some [''path'' \<mapsto> ''notes.md'', ''content'' \<mapsto> ''x'']) None = Inr True
       \<and> isToolAllowedForMode e ''write_to_file'' ''architect'' [] None
           (Some [''path'' \<mapsto> ''app.ts'', ''content'' \<mapsto> ''x'']) None
         = Inl (FileRestrictionError
                  ([CHR 0xC3, CHR 0xB0, CHR 0xC5, CHR 0xB8, CHR 0xE2, CHR 0x80, CHR 0x94, CHR 0xC3, CHR 0xAF, CHR 0xC2, CHR 0xB8] @ '' Architect'')
                  (CHR 0x5C # ''.md$'')
                  (Some ''Markdown files only'') ''app.ts'')
       \<and> isToolAllowedForMode e ''write_to_file'' ''architect'' [] None
           (Some [''path'' \<mapsto> ''app.ts'']) None = Inr True"
proof -
  let ?scoped = "Scoped ''edit'' \<lparr>fileRegex = Some (CHR 0x5C # ''.md$''),
                                  description = Some ''Markdown files only''\<rparr>"
  let ?rest = "[Simple ''browser'', Simple ''command'', Simple ''mcp'', Simple ''review'']"
  obtain mode where mode: "getModeBySlug ''architect'' (Some []) = Some mode"
    and nm: "name mode = [CHR 0xC3, CHR 0xB0, CHR 0xC5, CHR 0xB8, CHR 0xE2, CHR 0x80, CHR 0x94, CHR 0xC3, CHR 0xAF, CHR 0xC2, CHR 0xB8] @ '' Architect''"
    and gs: "groups mode = [Simple ''read''] @ ?scoped # ?rest"
    by (simp add: getModeBySlug_def modes_def)
  have stage: "isToolAllowedForMode e ''write_to_file'' ''architect'' [] None ps None
      = entry_decision e mode ?scoped ps" for ps
  proof -
    have "isToolAllowedForMode e ''write_to_file'' ''architect'' [] None ps None
        = check_groups e mode ''write_to_file'' ps (groups mode)"
      using assms(1) mode by (intro group_stage) (simp_all add: experiment_denies_def)
    also have "\<dots> = entry_decision e mode ?scoped ps"
      unfolding gs using assms(2-5) by (intro check_groups_first) simp_all
    finally show ?thesis .
  qed
  have md: "doesFileMatchRegex e ''notes.md'' (CHR 0x5C # ''.md$'')"
    and ts: "\<not> doesFileMatchRegex e ''app.ts'' (CHR 0x5C # ''.md$'')"
    unfolding doesFileMatchRegex_def assms(6) by code_simp+
  show ?thesis
    unfolding stage using md ts
    by (simp add: entry_decision_def param_def carries_edit_def nm)
qed

theorem architect_edits_markdown_only_witness:
  "isToolAllowedForMode sample_env ''write_to_file'' ''architect'' [] None
     (Some [''path'' \<mapsto> ''notes.md'', ''content'' \<mapsto> ''x'']) None = Inr True
   \<and> isToolAllowedForMode sample_env ''write_to_file'' ''architect'' [] None
       (Some [''path'' \<mapsto> ''app.ts'', ''content'' \<mapsto> ''x'']) None
     = Inl (FileRestrictionError
                  ([CHR 0xC3, CHR 0xB0, CHR 0xC5, CHR 0xB8, CHR 0xE2, CHR 0x80, CHR 0x94, CHR 0xC3, CHR 0xAF, CHR 0xC2, CHR 0xB8] @ '' Architect'')
                  (CHR 0x5C # ''.md$'')
              (Some ''Markdown files only'') ''app.ts'')
   \<and> isToolAllowedForMode sample_env ''write_to_file'' ''architect'' [] None
       (Some [''path'' \<mapsto> ''app.ts'']) None = Inr True"
  by (rule architect_edits_markdown_only
        [where e = sample_env and rs = "[''read_file'', ''search_files'', ''list_files'']"
           and es = "[''apply_diff'', ''write_to_file'', ''insert_content'']"])
     (simp_all add: sample_env_def)

text \<open>
  C10. When the first entry whose tools include the tool is the group \<^verbatim>\<open>edit\<close> with a
  file pattern, a call that names a path but whose \<^verbatim>\<open>diff\<close>, \<^verbatim>\<open>content\<close> and
  \<^verbatim>\<open>operations\<close> are each absent or the empty string is allowed and nothing is thrown,
  whether or not the path matches the pattern. A write with empty content therefore
  passes the restriction.
\<close>

theorem empty_edit_passes_restriction:
  assumes "tool \<notin> set (ALWAYS_AVAILABLE_TOOLS e)"
    and "\<not> experiment_denies e tool experiments"
    and "\<not> requirement_denies tool toolRequirements"
    and "getModeBySlug modeSlug (Some customModes) = Some mode"
    and "groups mode = pre @ Scoped ''edit'' opts # post"
    and "\<forall>h\<in>set pre. \<exists>hs. TOOL_GROUPS e (getGroupName h) = Some hs \<and> tool \<notin> set hs"
    and "TOOL_GROUPS e ''edit'' = Some ts" and "tool \<in> set ts"
    and "fileRegex opts = Some pattern"
    and "ps ''path'' = Some filePath"
    and "ps ''diff'' = None \<or> ps ''diff'' = Some []"
    and "ps ''content'' = None \<or> ps ''content'' = Some []"
    and "ps ''operations'' = None \<or> ps ''operations'' = Some []"
  shows "isToolAllowedForMode e tool modeSlug customModes toolRequirements (Some ps) experiments
           = Inr True"
proof -
  have "isToolAllowedForMode e tool modeSlug customModes toolRequirements (Some ps) experiments
      = check_groups e mode tool (Some ps) (groups mode)"
    using assms(1-4) by (rule group_stage)
  also have "\<dots> = entry_decision e mode (Scoped ''edit'' opts) (Some ps)"
    unfolding assms(5) using assms(6-8) by (intro check_groups_first) simp_all
  also have "\<dots> = Inr True"
    using assms(9-13) by (auto simp add: entry_decision_def param_def carries_edit_def)
  finally show ?thesis .
qed

theorem empty_edit_passes_restriction_witness:
  "\<not> doesFileMatchRegex sample_env ''app.ts'' (CHR 0x5C # ''.md$'')
   \<and> isToolAllowedForMode sample_env ''write_to_file'' ''architect'' [] None
       (Some [''path'' \<mapsto> ''app.ts'', ''content'' \<mapsto> '''']) None = Inr True"
proof -
  let ?opts = "\<lparr>fileRegex = Some (CHR 0x5C # ''.md$''),
                description = Some ''Markdown files only''\<rparr>"
  let ?rest = "[Simple ''browser'', Simple ''command'', Simple ''mcp'', Simple ''review'']"
  obtain mode where mode: "getModeBySlug ''architect'' (Some []) = Some mode"
    and gs: "groups mode = [Simple ''read''] @ Scoped ''edit'' ?opts # ?rest"
    by (simp add: getModeBySlug_def modes_def)
  have miss: "\<not> doesFileMatchRegex sample_env ''app.ts'' (CHR 0x5C # ''.md$'')"
    by code_simp
  have "isToolAllowedForMode sample_env ''write_to_file'' ''architect'' [] None
       (Some [''path'' \<mapsto> ''app.ts'', ''content'' \<mapsto> '''']) None = Inr True"
    by (rule empty_edit_passes_restriction
          [OF _ _ _ mode gs, where ts = "[''apply_diff'', ''write_to_file'', ''insert_content'']"
             and pattern = "CHR 0x5C # ''.md$''" and filePath = "''app.ts''"])
       (simp_all add: sample_env_def experiment_denies_def)
  with miss show ?thesis by blast
qed

text \<open>
  C9. A file pattern that \<^verbatim>\<open>RegExp\<close> rejects does not make the resolver fail with the
  constructor's error: \<^verbatim>\<open>doesFileMatchRegex\<close> answers \<^verbatim>\<open>false\<close> for every path, and a
  call that names a path and carries a diff, content or operations, decided by an entry
  of the group \<^verbatim>\<open>edit\<close> with such a pattern, ends in the file restriction error.
\<close>

theorem malformed_pattern_fails_closed:
  assumes "RegExp e pattern = None" and "pattern \<noteq> []"
    and "tool \<notin> set (ALWAYS_AVAILABLE_TOOLS e)"
    and "\<not> experiment_denies e tool experiments"
    and "\<not> requirement_denies tool toolRequirements"
    and "getModeBySlug modeSlug (Some customModes) = Some mode"
    and "groups mode = pre @ Scoped ''edit'' opts # post"
    and "\<forall>h\<in>set pre. \<exists>hs. TOOL_GROUPS e (getGroupName h) = Some hs \<and> tool \<notin> set hs"
    and "TOOL_GROUPS e ''edit'' = Some ts" and "tool \<in> set ts"
    and "fileRegex opts = Some pattern"
    and "ps ''path'' = Some filePath" and "filePath \<noteq> []"
    and "truthy (ps ''diff'') \<or> truthy (ps ''content'') \<or> truthy (ps ''operations'')"
  shows "doesFileMatchRegex e anyPath pattern = False
       \<and> isToolAllowedForMode e tool modeSlug customModes toolRequirements (Some ps) experiments
           = Inl (FileRestrictionError (name mode) pattern (description opts) filePath)"
proof -
  have caught: "doesFileMatchRegex e p pattern = False" for p
    by (simp add: doesFileMatchRegex_def assms(1))
  have "isToolAllowedForMode e tool modeSlug customModes toolRequirements (Some ps) experiments
      = check_groups e mode tool (Some ps) (groups mode)"
    using assms(3-6) by (rule group_stage)
  also have "\<dots> = entry_decision e mode (Scoped ''edit'' opts) (Some ps)"
    unfolding assms(7) using assms(8-10) by (intro check_groups_first) simp_all
  also have "\<dots> = Inl (FileRestrictionError (name mode) pattern (description opts) filePath)"
    using assms(2,11-14) caught
    by (simp add: entry_decision_def param_def carries_edit_def)
  finally show ?thesis using caught by simp
qed

text \<open>
  A custom mode whose author wrote the glob \<^verbatim>\<open>*.md\<close> where a regular expression is
  expected: the star has nothing to repeat, so the constructor throws.
\<close>

theorem malformed_pattern_fails_closed_witness:
  "RegExp sample_env ''*.md'' = None
   \<and> doesFileMatchRegex sample_env ''notes.md'' ''*.md'' = False
   \<and> isToolAllowedForMode sample_env ''write_to_file'' ''notes''
       [\<lparr>slug = ''notes'', name = ''Notes'', roleDefinition = ''r'',
         groups = [Simple ''read'',
                   Scoped ''edit'' \<lparr>fileRegex = Some ''*.md'', description = None\<rparr>],
         customInstructions = None\<rparr>]
       None (Some [''path'' \<mapsto> ''notes.md'', ''content'' \<mapsto> ''x'']) None
     = Inl (FileRestrictionError ''Notes'' ''*.md'' None ''notes.md'')"
proof -
  let ?opts = "\<lparr>fileRegex = Some ''*.md'', description = None\<rparr>"
  let ?notes = "\<lparr>slug = ''notes'', name = ''Notes'', roleDefinition = ''r'',
         groups = [Simple ''read'', Scoped ''edit'' ?opts], customInstructions = None\<rparr>"
  have bad: "RegExp sample_env ''*.md'' = None"
    by (simp add: sample_env_def frag_RegExp_def fragment_operators_def)
  have mode: "getModeBySlug ''notes'' (Some [?notes]) = Some ?notes"
    by (simp add: getModeBySlug_def)
  have gs: "groups ?notes = [Simple ''read''] @ Scoped ''edit'' ?opts # []"
    by simp
  have "doesFileMatchRegex sample_env ''notes.md'' ''*.md'' = False
     \<and> isToolAllowedForMode sample_env ''write_to_file'' ''notes'' [?notes] None
         (Some [''path'' \<mapsto> ''notes.md'', ''content'' \<mapsto> ''x'']) None
       = Inl (FileRestrictionError (name ?notes) ''*.md'' (description ?opts) ''notes.md'')"
    by (rule malformed_pattern_fails_closed
          [OF bad _ _ _ _ mode gs, where ts = "[''apply_diff'', ''write_to_file'', ''insert_content'']"])
       (simp_all add: sample_env_def experiment_denies_def)
  with bad show ?thesis by simp
qed

subsection \<open>The merge of custom modes\<close>

lemma findIndex_absent: "(findIndex p xs = - 1) = (\<forall>x\<in>set xs. \<not> p x)"
  and findIndex_lower: "- 1 \<le> findIndex p xs"
  by (induction xs) (auto simp add: Let_def)

lemma merge_one_findIndex:
  "merge_one xs c =
     (let index = findIndex (\<lambda>mode. slug mode = slug c) xs
      in if index \<noteq> - 1 then xs[nat index := c] else xs @ [c])"
proof (induction xs)
  case Nil
  show ?case by simp
next
  case (Cons m ms)
  show ?case
  proof (cases "slug m = slug c")
    case True
    then show ?thesis by simp
  next
    case False
    let ?i = "findIndex (\<lambda>mode. slug mode = slug c) ms"
    show ?thesis
    proof (cases "?i = - 1")
      case True
      with False Cons.IH show ?thesis by (simp add: Let_def)
    next
      case hit: False
      with findIndex_lower [of "\<lambda>mode. slug mode = slug c" ms] have nonneg: "0 \<le> ?i" by simp
      then have "nat (?i + 1) = Suc (nat ?i)" and "?i + 1 \<noteq> - 1" by simp_all
      with False hit Cons.IH show ?thesis by (simp add: Let_def)
    qed
  qed
qed

lemma override_or_add_merge_one:
  "override_or_add a c st = st[a := merge_one (st ! a) c]"
  by (simp add: override_or_add_def merge_one_findIndex Let_def)

lemma fold_override_or_add:
  "a < length st \<Longrightarrow> fold (override_or_add a) cs st = st[a := foldl merge_one (st ! a) cs]"
  by (induction cs arbitrary: st) (simp_all add: override_or_add_merge_one)

lemma getAllModes_store:
  assumes "modes_ref < length st" and "st ! modes_ref = modes"
  shows "getAllModes (Some cs) st = (length st, st @ [merge_modes modes cs])"
    and "getAllModes None st = (length st, st @ [modes])"
proof -
  have "fold (override_or_add (length st)) cs (st @ [modes])
      = st @ [foldl merge_one modes cs]"
    by (simp add: fold_override_or_add)
  with assms show "getAllModes (Some cs) st = (length st, st @ [merge_modes modes cs])"
    by (cases cs) (simp_all add: getAllModes_def spread_def merge_modes_def)
  from assms show "getAllModes None st = (length st, st @ [modes])"
    by (simp add: getAllModes_def spread_def)
qed

lemma slugs_merge_one:
  "map slug (merge_one xs c) =
     (if slug c \<in> slug ` set xs then map slug xs else map slug xs @ [slug c])"
  by (induction xs) auto

lemma slugs_foldl_merge_one:
  "\<exists>ys. map slug (foldl merge_one xs cs) = map slug xs @ ys"
proof (induction cs arbitrary: xs)
  case Nil
  show ?case by simp
next
  case (Cons c cs)
  from Cons.IH [of "merge_one xs c"] show ?case
    by (auto simp add: slugs_merge_one split: if_splits)
qed

lemma merge_one_at_index:
  "distinct (map slug xs) \<Longrightarrow> i < length xs \<Longrightarrow> slug (xs ! i) = slug c \<Longrightarrow>
   merge_one xs c = xs[i := c]"
proof (induction xs arbitrary: i)
  case Nil
  then show ?case by simp
next
  case (Cons m ms)
  show ?case
  proof (cases i)
    case 0
    with Cons.prems show ?thesis by simp
  next
    case (Suc j)
    with Cons.prems have "ms ! j \<in> set ms" and "slug (ms ! j) = slug c" by simp_all
    with Cons.prems(1) have "slug m \<noteq> slug c" by (auto simp add: image_iff)
    with Suc Cons show ?thesis by simp
  qed
qed

lemma merge_one_novel: "slug c \<notin> slug ` set xs \<Longrightarrow> merge_one xs c = xs @ [c]"
  by (induction xs) auto

lemma foldl_merge_one_novel:
  "distinct (map slug cs) \<Longrightarrow> \<forall>c\<in>set cs. slug c \<notin> slug ` set xs \<Longrightarrow>
   foldl merge_one xs cs = xs @ cs"
proof (induction cs arbitrary: xs)
  case Nil
  show ?case by simp
next
  case (Cons c cs)
  have "foldl merge_one (xs @ [c]) cs = (xs @ [c]) @ cs"
    using Cons.prems by (intro Cons.IH) (auto simp add: image_iff)
  with Cons.prems show ?case by (simp add: merge_one_novel)
qed

lemma merge_one_keeps:
  "i < length xs \<Longrightarrow> slug (xs ! i) \<noteq> slug c \<Longrightarrow> merge_one xs c ! i = xs ! i"
proof (induction xs arbitrary: i)
  case Nil
  then show ?case by simp
next
  case (Cons m ms)
  then show ?case by (cases i) auto
qed

lemma length_merge_one: "length xs \<le> length (merge_one xs c)"
  by (induction xs) auto

lemma foldl_merge_one_keeps:
  "i < length xs \<Longrightarrow> slug (xs ! i) \<notin> slug ` set cs \<Longrightarrow> foldl merge_one xs cs ! i = xs ! i"
proof (induction cs arbitrary: xs)
  case Nil
  show ?case by simp
next
  case (Cons c cs)
  from Cons.prems have ne: "slug (xs ! i) \<noteq> slug c" by auto
  have len: "i < length (merge_one xs c)"
    using Cons.prems(1) length_merge_one [of xs c] by simp
  have same: "merge_one xs c ! i = xs ! i"
    using Cons.prems(1) ne by (rule merge_one_keeps)
  have "foldl merge_one (merge_one xs c) cs ! i = merge_one xs c ! i"
    using len Cons.prems(2) by (intro Cons.IH) (simp_all add: same)
  with same show ?case by simp
qed

lemma distinct_builtin_slugs: "distinct (map slug modes)"
  by (simp add: modes_def)

text \<open>
  C6. In a store whose module constant holds the catalog, \<^verbatim>\<open>getAllModes\<close> returns a
  fresh array whose contents are the reference merge of the built-ins with the custom
  modes (the built-ins themselves when there are none). It leaves every array the store
  held before, the module constant among them, as it was, so a second call with the
  same custom modes yields an equal sequence in another fresh array. A custom mode with
  the slug of the built-in at index \<open>i\<close> replaces it at \<open>i\<close> and the length stays;
  custom modes with pairwise different slugs that no built-in has follow the built-ins
  in the order supplied; the slugs at the built-in positions are always those of the
  built-ins in their order, and a built-in whose slug no custom mode has stays at its
  index.
\<close>

theorem getAllModes_reference_merge:
  assumes "modes_ref < length st" and "st ! modes_ref = modes"
  shows "allModes_of (Some cs) st = merge_modes modes cs
       \<and> allModes_of None st = modes
       \<and> fst (getAllModes (Some cs) st) = length st
       \<and> (\<forall>a<length st. snd (getAllModes (Some cs) st) ! a = st ! a)
       \<and> snd (getAllModes (Some cs) st) ! modes_ref = modes
       \<and> allModes_of (Some cs) (snd (getAllModes (Some cs) st)) = allModes_of (Some cs) st
       \<and> fst (getAllModes (Some cs) (snd (getAllModes (Some cs) st)))
           \<noteq> fst (getAllModes (Some cs) st)
       \<and> snd (getAllModes (Some cs) (snd (getAllModes (Some cs) st))) ! modes_ref = modes
       \<and> (i < length modes \<and> slug c = slug (modes ! i) \<longrightarrow>
            allModes_of (Some [c]) st = modes[i := c]
            \<and> length (allModes_of (Some [c]) st) = length modes)
       \<and> (distinct (map slug cs) \<and> (\<forall>c\<in>set cs. slug c \<notin> slug ` set modes) \<longrightarrow>
            allModes_of (Some cs) st = modes @ cs)
       \<and> map slug (take (length modes) (allModes_of (Some cs) st)) = map slug modes
       \<and> (i < length modes \<and> slug (modes ! i) \<notin> slug ` set cs \<longrightarrow>
            allModes_of (Some cs) st ! i = modes ! i)"
proof -
  let ?st1 = "st @ [merge_modes modes cs]"
  have call: "getAllModes (Some xs) st = (length st, st @ [merge_modes modes xs])" for xs
    using assms by (rule getAllModes_store)
  have none: "getAllModes None st = (length st, st @ [modes])"
    using assms by (rule getAllModes_store)
  have st1: "modes_ref < length ?st1" "?st1 ! modes_ref = modes"
    using assms by (simp_all add: nth_append)
  have again: "getAllModes (Some cs) ?st1 = (length ?st1, ?st1 @ [merge_modes modes cs])"
    using st1 by (rule getAllModes_store)
  have merged: "allModes_of (Some xs) st = merge_modes modes xs" for xs
    by (simp add: call)
  have builtin: "allModes_of None st = modes"
    by (simp add: none)
  have fresh: "fst (getAllModes (Some cs) st) = length st"
    by (simp add: call)
  have frame: "\<forall>a<length st. snd (getAllModes (Some cs) st) ! a = st ! a"
    by (simp add: call nth_append)
  have const: "snd (getAllModes (Some cs) st) ! modes_ref = modes"
    using assms by (simp add: call nth_append)
  have twice: "allModes_of (Some cs) (snd (getAllModes (Some cs) st)) = allModes_of (Some cs) st"
    by (simp add: call again nth_append)
  have other: "fst (getAllModes (Some cs) (snd (getAllModes (Some cs) st)))
      \<noteq> fst (getAllModes (Some cs) st)"
    by (simp add: call again)
  have const2: "snd (getAllModes (Some cs) (snd (getAllModes (Some cs) st))) ! modes_ref = modes"
    using assms by (simp add: call again nth_append)
  have override: "allModes_of (Some [c]) st = modes[i := c]
      \<and> length (allModes_of (Some [c]) st) = length modes"
    if "i < length modes" and "slug c = slug (modes ! i)"
    using that merge_one_at_index [OF distinct_builtin_slugs, of i c]
    by (simp add: merged merge_modes_def)
  have novel: "allModes_of (Some cs) st = modes @ cs"
    if "distinct (map slug cs)" and "\<forall>c\<in>set cs. slug c \<notin> slug ` set modes"
    using that by (simp add: merged merge_modes_def foldl_merge_one_novel)
  have order: "map slug (take (length modes) (allModes_of (Some cs) st)) = map slug modes"
  proof -
    obtain ys where "map slug (merge_modes modes cs) = map slug modes @ ys"
      using slugs_foldl_merge_one [of modes cs] by (auto simp add: merge_modes_def)
    then have "take (length modes) (map slug (merge_modes modes cs)) = map slug modes"
      by simp
    then show ?thesis by (simp add: merged take_map)
  qed
  have keep: "allModes_of (Some cs) st ! i = modes ! i"
    if "i < length modes" and "slug (modes ! i) \<notin> slug ` set cs"
    using that by (simp add: merged merge_modes_def foldl_merge_one_keeps)
  from merged [of cs] builtin fresh frame const twice other const2 override novel order keep
  show ?thesis by blast
qed

text \<open>
  Two custom modes on the store of the module: the first overrides \<^verbatim>\<open>code\<close>, the
  second is new.
\<close>

theorem getAllModes_reference_merge_witness:
  "fst (getAllModes
      (Some [\<lparr>slug = ''code'', name = ''X'', roleDefinition = ''r'', groups = [],
              customInstructions = None\<rparr>,
             \<lparr>slug = ''docs'', name = ''N'', roleDefinition = ''r'', groups = [],
              customInstructions = None\<rparr>]) module_store) = 1
   \<and> map slug (allModes_of
      (Some [\<lparr>slug = ''code'', name = ''X'', roleDefinition = ''r'', groups = [],
              customInstructions = None\<rparr>,
             \<lparr>slug = ''docs'', name = ''N'', roleDefinition = ''r'', groups = [],
              customInstructions = None\<rparr>]) module_store)
     = [''code'', ''architect'', ''ask'', ''debug'', ''reviewer'', ''orchestrator'', ''docs'']
   \<and> map name (allModes_of
      (Some [\<lparr>slug = ''code'', name = ''X'', roleDefinition = ''r'', groups = [],
              customInstructions = None\<rparr>,
             \<lparr>slug = ''docs'', name = ''N'', roleDefinition = ''r'', groups = [],
              customInstructions = None\<rparr>]) module_store)
     = [''X'',
        [CHR 0xC3, CHR 0xB0, CHR 0xC5, CHR 0xB8, CHR 0xE2, CHR 0x80, CHR 0x94, CHR 0xC3, CHR 0xAF, CHR 0xC2, CHR 0xB8] @ '' Architect'',
        [CHR 0xC3, CHR 0xA2, CHR 0xE2, CHR 0x80, CHR 0x9C] @ '' Ask'',
        [CHR 0xC3, CHR 0xB0, CHR 0xC5, CHR 0xB8, CHR 0xC2, CHR 0xAA, CHR 0xC2, CHR 0xB2] @ '' Debug'',
        [CHR 0xC3, CHR 0xB0, CHR 0xC5, CHR 0xB8, CHR 0xC2, CHR 0xA7] @ '' Reviewer'',
        [CHR 0xC3, CHR 0xB0, CHR 0xC5, CHR 0xB8, CHR 0xC2, CHR 0xAA, CHR 0xC6, CHR 0x92] @ '' Orchestrator'',
        ''N'']
   \<and> snd (getAllModes
      (Some [\<lparr>slug = ''code'', name = ''X'', roleDefinition = ''r'', groups = [],
              customInstructions = None\<rparr>,
             \<lparr>slug = ''docs'', name = ''N'', roleDefinition = ''r'', groups = [],
              customInstructions = None\<rparr>]) module_store) ! modes_ref = modes
   \<and> allModes_of
      (Some [\<lparr>slug = ''code'', name = ''X'', roleDefinition = ''r'', groups = [],
              customInstructions = None\<rparr>]) module_store
     = modes[0 := \<lparr>slug = ''code'', name = ''X'', roleDefinition = ''r'', groups = [],
                   customInstructions = None\<rparr>]
   \<and> allModes_of
      (Some [\<lparr>slug = ''docs'', name = ''N'', roleDefinition = ''r'', groups = [],
              customInstructions = None\<rparr>]) module_store
     = modes @ [\<lparr>slug = ''docs'', name = ''N'', roleDefinition = ''r'', groups = [],
                 customInstructions = None\<rparr>]"
proof -
  let ?x = "\<lparr>slug = ''code'', name = ''X'', roleDefinition = ''r'', groups = [],
             customInstructions = None\<rparr>"
  let ?n = "\<lparr>slug = ''docs'', name = ''N'', roleDefinition = ''r'', groups = [],
             customInstructions = None\<rparr>"
  have s1: "modes_ref < length module_store" and s2: "module_store ! modes_ref = modes"
    by (simp_all add: modes_ref_def module_store_def)
  note both = getAllModes_reference_merge [OF s1 s2, where cs = "[?x, ?n]" and i = 0 and c = ?x]
  note new = getAllModes_reference_merge [OF s1 s2, where cs = "[?n]" and i = 0 and c = ?x]
  have code_first: "0 < length modes \<and> slug ?x = slug (modes ! 0)"
    by (simp add: modes_def)
  have docs_new: "distinct (map slug [?n]) \<and> (\<forall>c\<in>set [?n]. slug c \<notin> slug ` set modes)"
    by (simp add: modes_def)
  have merged: "merge_modes modes [?x, ?n] = modes[0 := ?x] @ [?n]"
    by (simp add: merge_modes_def modes_def del: identity_description.simps)
  have contents: "allModes_of (Some [?x, ?n]) module_store = modes[0 := ?x] @ [?n]"
    using both [THEN conjunct1] merged by (rule trans)
  have fresh: "fst (getAllModes (Some [?x, ?n]) module_store) = length module_store"
    using both by blast
  have a: "fst (getAllModes (Some [?x, ?n]) module_store) = 1"
    unfolding fresh by (simp add: module_store_def)
  have b: "map slug (allModes_of (Some [?x, ?n]) module_store)
      = [''code'', ''architect'', ''ask'', ''debug'', ''reviewer'', ''orchestrator'', ''docs'']"
    unfolding contents by (simp add: modes_def del: identity_description.simps)
  have c: "map name (allModes_of (Some [?x, ?n]) module_store)
      = [''X'',
        [CHR 0xC3, CHR 0xB0, CHR 0xC5, CHR 0xB8, CHR 0xE2, CHR 0x80, CHR 0x94, CHR 0xC3, CHR 0xAF, CHR 0xC2, CHR 0xB8] @ '' Architect'',
        [CHR 0xC3, CHR 0xA2, CHR 0xE2, CHR 0x80, CHR 0x9C] @ '' Ask'',
        [CHR 0xC3, CHR 0xB0, CHR 0xC5, CHR 0xB8, CHR 0xC2, CHR 0xAA, CHR 0xC2, CHR 0xB2] @ '' Debug'',
        [CHR 0xC3, CHR 0xB0, CHR 0xC5, CHR 0xB8, CHR 0xC2, CHR 0xA7] @ '' Reviewer'',
        [CHR 0xC3, CHR 0xB0, CHR 0xC5, CHR 0xB8, CHR 0xC2, CHR 0xAA, CHR 0xC6, CHR 0x92] @ '' Orchestrator'',
        ''N'']"
    unfolding contents by (simp add: modes_def del: identity_description.simps)
  have d: "snd (getAllModes (Some [?x, ?n]) module_store) ! modes_ref = modes"
    using both by blast
  have e: "allModes_of (Some [?x]) module_store = modes[0 := ?x]"
    using both code_first by blast
  have f: "allModes_of (Some [?n]) module_store = modes @ [?n]"
    using new docs_new by blast
  from a b c d e f show ?thesis by blast
qed

subsection \<open>The grants of the built-in catalog\<close>

text \<open>
  C7, as the code has it. The claim gives the mode \<^verbatim>\<open>architect\<close> the groups read, edit
  (Markdown only), browser and mcp, gives \<^verbatim>\<open>code\<close> and \<^verbatim>\<open>reviewer\<close> no group
  \<^verbatim>\<open>review\<close>, and gives \<^verbatim>\<open>debug\<close> the grants of \<^verbatim>\<open>code\<close>. In the catalog,
  \<^verbatim>\<open>architect\<close> also lists \<^verbatim>\<open>command\<close> and \<^verbatim>\<open>review\<close>, \<^verbatim>\<open>code\<close> and
  \<^verbatim>\<open>reviewer\<close> list \<^verbatim>\<open>review\<close>, and \<^verbatim>\<open>debug\<close> lacks the group \<^verbatim>\<open>review\<close>
  that \<^verbatim>\<open>code\<close> has; in the instance, \<^verbatim>\<open>architect\<close> may run a command.
\<close>

theorem catalog_grants_differ_from_claim:
  "map_option (\<lambda>mode. map getGroupName (groups mode)) (getModeBySlug ''architect'' None)
     = Some [''read'', ''edit'', ''browser'', ''command'', ''mcp'', ''review'']
   \<and> map_option (\<lambda>mode. map getGroupName (groups mode)) (getModeBySlug ''code'' None)
     = Some [''read'', ''edit'', ''browser'', ''command'', ''mcp'', ''review'']
   \<and> map_option (\<lambda>mode. map getGroupName (groups mode)) (getModeBySlug ''reviewer'' None)
     = Some [''read'', ''edit'', ''browser'', ''command'', ''mcp'', ''review'']
   \<and> map_option (\<lambda>mode. Simple ''review'' \<in> set (groups mode)) (getModeBySlug ''code'' None)
     = Some True
   \<and> map_option (\<lambda>mode. Simple ''review'' \<in> set (groups mode)) (getModeBySlug ''debug'' None)
     = Some False
   \<and> isToolAllowedForMode sample_env ''execute_command'' ''architect'' [] None None None
     = Inr True"
proof -
  have a: "map_option (\<lambda>mode. map getGroupName (groups mode)) (getModeBySlug ''architect'' None)
     = Some [''read'', ''edit'', ''browser'', ''command'', ''mcp'', ''review'']"
    and c: "map_option (\<lambda>mode. map getGroupName (groups mode)) (getModeBySlug ''code'' None)
     = Some [''read'', ''edit'', ''browser'', ''command'', ''mcp'', ''review'']"
    and r: "map_option (\<lambda>mode. map getGroupName (groups mode)) (getModeBySlug ''reviewer'' None)
     = Some [''read'', ''edit'', ''browser'', ''command'', ''mcp'', ''review'']"
    by (simp_all add: getModeBySlug_def modes_def del: identity_description.simps)
  have d: "map_option (\<lambda>mode. Simple ''review'' \<in> set (groups mode))
       (getModeBySlug ''code'' None) = Some True"
    and d': "map_option (\<lambda>mode. Simple ''review'' \<in> set (groups mode))
       (getModeBySlug ''debug'' None) = Some False"
    by (simp_all add: getModeBySlug_def modes_def del: identity_description.simps)
  have x: "isToolAllowedForMode sample_env ''execute_command'' ''architect'' [] None None None
     = Inr True"
    by code_simp
  show ?thesis by (intro conjI a c r d d' x)
qed

text \<open>
  C7, amended. The catalog holds, in this order, \<^verbatim>\<open>code\<close> with the groups read, edit,
  browser, command, mcp and review, none of them scoped; \<^verbatim>\<open>architect\<close> with read, edit
  scoped to the pattern \<^verbatim>\<open>\.md$\<close> (Markdown files only), browser, command, mcp and
  review; \<^verbatim>\<open>ask\<close> with read, browser and mcp only; \<^verbatim>\<open>debug\<close> with read, edit,
  browser, command and mcp, the grants of \<^verbatim>\<open>code\<close> less review; \<^verbatim>\<open>reviewer\<close> with
  read, edit scoped to the pattern \<^verbatim>\<open>\.agent/review_response_.*\.md$\<close>, browser,
  command, mcp and review; \<^verbatim>\<open>orchestrator\<close> with no group. Each entry is listed
  with the file pattern of its options, if it has any.
\<close>

theorem builtin_catalog_grants:
  "map slug modes = [''code'', ''architect'', ''ask'', ''debug'', ''reviewer'', ''orchestrator'']
   \<and> map_option (\<lambda>mode. map (\<lambda>g. (getGroupName g, map_option fileRegex (getGroupOptions g)))
                          (groups mode)) (getModeBySlug ''code'' None)
     = Some [(''read'', None), (''edit'', None), (''browser'', None), (''command'', None),
             (''mcp'', None), (''review'', None)]
   \<and> map_option (\<lambda>mode. map (\<lambda>g. (getGroupName g, map_option fileRegex (getGroupOptions g)))
                          (groups mode)) (getModeBySlug ''architect'' None)
     = Some [(''read'', None), (''edit'', Some (Some (CHR 0x5C # ''.md$''))), (''browser'', None),
             (''command'', None), (''mcp'', None), (''review'', None)]
   \<and> map_option (\<lambda>mode. map (\<lambda>g. (getGroupName g, map_option fileRegex (getGroupOptions g)))
                          (groups mode)) (getModeBySlug ''ask'' None)
     = Some [(''read'', None), (''browser'', None), (''mcp'', None)]
   \<and> map_option (\<lambda>mode. map (\<lambda>g. (getGroupName g, map_option fileRegex (getGroupOptions g)))
                          (groups mode)) (getModeBySlug ''debug'' None)
     = Some [(''read'', None), (''edit'', None), (''browser'', None), (''command'', None),
             (''mcp'', None)]
   \<and> map_option (\<lambda>mode. map (\<lambda>g. (getGroupName g, map_option fileRegex (getGroupOptions g)))
                          (groups mode)) (getModeBySlug ''reviewer'' None)
     = Some [(''read'', None),
             (''edit'', Some (Some (CHR 0x5C # ''.agent/review_response_.*'' @ CHR 0x5C # ''.md$''))),
             (''browser'', None), (''command'', None), (''mcp'', None), (''review'', None)]
   \<and> map_option groups (getModeBySlug ''orchestrator'' None) = Some []
   \<and> map_option (\<lambda>t. (t ''notes.md'', t ''app.ts''))
        (frag_RegExp (CHR 0x5C # ''.md$'')) = Some (True, False)
   \<and> map_option (\<lambda>t. (t ''.agent/review_response_7.md'', t ''.agent/review_request_7.md''))
        (frag_RegExp (CHR 0x5C # ''.agent/review_response_.*'' @ CHR 0x5C # ''.md$''))
     = Some (True, False)"
proof -
  have slugs: "map slug modes
      = [''code'', ''architect'', ''ask'', ''debug'', ''reviewer'', ''orchestrator'']"
    by (simp add: modes_def del: identity_description.simps)
  have code: "map_option (\<lambda>mode. map (\<lambda>g. (getGroupName g, map_option fileRegex (getGroupOptions g)))
                          (groups mode)) (getModeBySlug ''code'' None)
     = Some [(''read'', None), (''edit'', None), (''browser'', None), (''command'', None),
             (''mcp'', None), (''review'', None)]"
    by (simp add: getModeBySlug_def modes_def del: identity_description.simps)
  have architect: "map_option (\<lambda>mode. map (\<lambda>g. (getGroupName g, map_option fileRegex (getGroupOptions g)))
                          (groups mode)) (getModeBySlug ''architect'' None)
     = Some [(''read'', None), (''edit'', Some (Some (CHR 0x5C # ''.md$''))), (''browser'', None),
             (''command'', None), (''mcp'', None), (''review'', None)]"
    by (simp add: getModeBySlug_def modes_def del: identity_description.simps)
  have ask: "map_option (\<lambda>mode. map (\<lambda>g. (getGroupName g, map_option fileRegex (getGroupOptions g)))
                          (groups mode)) (getModeBySlug ''ask'' None)
     = Some [(''read'', None), (''browser'', None), (''mcp'', None)]"
    by (simp add: getModeBySlug_def modes_def del: identity_description.simps)
  have debug: "map_option (\<lambda>mode. map (\<lambda>g. (getGroupName g, map_option fileRegex (getGroupOptions g)))
                          (groups mode)) (getModeBySlug ''debug'' None)
     = Some [(''read'', None), (''edit'', None), (''browser'', None), (''command'', None),
             (''mcp'', None)]"
    by (simp add: getModeBySlug_def modes_def del: identity_description.simps)
  have reviewer: "map_option (\<lambda>mode. map (\<lambda>g. (getGroupName g, map_option fileRegex (getGroupOptions g)))
                          (groups mode)) (getModeBySlug ''reviewer'' None)
     = Some [(''read'', None),
             (''edit'', Some (Some (CHR 0x5C # ''.agent/review_response_.*'' @ CHR 0x5C # ''.md$''))),
             (''browser'', None), (''command'', None), (''mcp'', None), (''review'', None)]"
    by (simp add: getModeBySlug_def modes_def del: identity_description.simps)
  have orchestrator: "map_option groups (getModeBySlug ''orchestrator'' None) = Some []"
    by (simp add: getModeBySlug_def modes_def del: identity_description.simps)
  have markdown: "map_option (\<lambda>t. (t ''notes.md'', t ''app.ts''))
        (frag_RegExp (CHR 0x5C # ''.md$'')) = Some (True, False)"
    by code_simp
  have response: "map_option (\<lambda>t. (t ''.agent/review_response_7.md'', t ''.agent/review_request_7.md''))
        (frag_RegExp (CHR 0x5C # ''.agent/review_response_.*'' @ CHR 0x5C # ''.md$''))
     = Some (True, False)"
    by code_simp
  show ?thesis
    by (intro conjI slugs code architect ask debug reviewer orchestrator markdown response)
qed

end
